theory Spec2Isabelle
  imports Main "HOL-Library.List_Lexorder" "HOL-Library.Char_ord"
begin

section \<open>tegu\_ha.py: the high-availability controller of tegu\<close>

text \<open>
  The script \<^verbatim>\<open>src/system/tegu_ha.py\<close> is Python 2. Everything it does to the outside
  goes through \<^verbatim>\<open>subprocess\<close>, \<^verbatim>\<open>time.sleep\<close> and the log on stderr. The embedding makes
  these explicit: a procedure takes the state of the outside world and returns a result
  (a Python exception or a value), the new world, and the list of effects it caused in
  the order they happened.
\<close>

subsection \<open>Configuration constants\<close>

text \<open>The values the script has when no environment variable overrides them.\<close>

definition HEARTBEAT_SEC :: int where
  "HEARTBEAT_SEC = 5"

definition PRI_WAIT_SEC :: int where
  "PRI_WAIT_SEC = 5"

definition TEGU_USER :: string where
  "TEGU_USER = ''tegu''"

definition STDBY_LIST :: string where
  "STDBY_LIST = ''/etc/tegu/standby_list''"

subsection \<open>Exceptions, commands, effects\<close>

datatype py_exn =
    CalledProcessError
  | NameError
  | UnboundLocalError
  | IndexError
  | ValueError
  | SystemExit int

text \<open>
  The command lines handed to the shell. The host argument is the one given to
  \<^verbatim>\<open>ssh_cmd\<close>: the empty string means local execution. \<open>TS_R_CMD\<close> carries the short
  host name \<^verbatim>\<open>htoks[0]\<close> that the command line is built from, and runs locally, as
  \<open>TS_L_CMD\<close> does. \<open>PING_CMD\<close> is the curl line of \<^verbatim>\<open>is_active\<close>.
\<close>

datatype command =
    SYNC_CMD string
  | DATE_CMD string
  | TS_R_CMD string
  | TS_L_CMD
  | PING_CMD string
  | DEACTIVATE_CMD string
  | ACTIVATE_CMD string

text \<open>An effect: a log line (without its time prefix), a sleep, or a command with its exit status.\<close>

datatype event =
    Log string
  | Sleep int
  | Exec command int

text \<open>
  What the script does not define itself is a parameter: the shell (exit status and
  standard output of a command, in a world that the command may change), the passing of
  time, Python's \<^verbatim>\<open>int\<close> on a string (\<open>None\<close> is ValueError), \<^verbatim>\<open>time.strptime\<close> with
  the format \<^verbatim>\<open>%Y-%m-%d %H:%M:%S\<close> followed by \<^verbatim>\<open>int(time.mktime(..))\<close> (\<open>None\<close> is any
  exception of the two), and \<^verbatim>\<open>socket.getfqdn()\<close>.
\<close>

record 'w env =
  shell :: "command \<Rightarrow> 'w \<Rightarrow> (int \<times> string) \<times> 'w"
  elapse :: "int \<Rightarrow> 'w \<Rightarrow> 'w"
  py_int :: "string \<Rightarrow> int option"
  strptime_mktime :: "string \<Rightarrow> int option"
  getfqdn :: string

type_synonym ('w, 'a) proc = "'w \<Rightarrow> (py_exn + 'a) \<times> 'w \<times> event list"

definition pret :: "'a \<Rightarrow> ('w, 'a) proc" where
  "pret a w = (Inr a, w, [])"

definition praise :: "py_exn \<Rightarrow> ('w, 'a) proc" where
  "praise e w = (Inl e, w, [])"

text \<open>Sequencing: an exception of the first part skips the second.\<close>

definition pbind :: "('w, 'a) proc \<Rightarrow> ('a \<Rightarrow> ('w, 'b) proc) \<Rightarrow> ('w, 'b) proc" where
  "pbind m f w =
     (case m w of
        (Inl e, w1, t1) \<Rightarrow> (Inl e, w1, t1)
      | (Inr a, w1, t1) \<Rightarrow> (case f a w1 of (r, w2, t2) \<Rightarrow> (r, w2, t1 @ t2)))"

text \<open>\<^verbatim>\<open>try: m except <handles>: h\<close>; any other exception passes through.\<close>

definition try_except :: "('w, 'a) proc \<Rightarrow> (py_exn \<Rightarrow> bool) \<Rightarrow> ('w, 'a) proc \<Rightarrow> ('w, 'a) proc" where
  "try_except m handles h w =
     (case m w of
        (Inl e, w1, t1) \<Rightarrow>
          (if handles e then (case h w1 of (r, w2, t2) \<Rightarrow> (r, w2, t1 @ t2))
           else (Inl e, w1, t1))
      | (Inr a, w1, t1) \<Rightarrow> (Inr a, w1, t1))"

definition check_call :: "'w env \<Rightarrow> command \<Rightarrow> ('w, unit) proc" where
  "check_call E c w =
     (case shell E c w of
        ((rc, out), w1) \<Rightarrow>
          (if rc = 0 then Inr () else Inl CalledProcessError, w1, [Exec c rc]))"

definition check_output :: "'w env \<Rightarrow> command \<Rightarrow> ('w, string) proc" where
  "check_output E c w =
     (case shell E c w of
        ((rc, out), w1) \<Rightarrow>
          (if rc = 0 then Inr out else Inl CalledProcessError, w1, [Exec c rc]))"

definition sleep :: "'w env \<Rightarrow> int \<Rightarrow> ('w, unit) proc" where
  "sleep E d w = (Inr (), elapse E d w, [Sleep d])"

definition int_of_str :: "'w env \<Rightarrow> string \<Rightarrow> ('w, int) proc" where
  "int_of_str E s = (case py_int E s of None \<Rightarrow> praise ValueError | Some n \<Rightarrow> pret n)"

subsection \<open>Strings and lists of Python\<close>

definition is_space :: "char \<Rightarrow> bool" where
  "is_space c = (c \<in> set [CHR '' '', CHR 0x09, CHR 0x0A, CHR 0x0B, CHR 0x0C, CHR 0x0D])"

text \<open>\<^verbatim>\<open>string.split(s)\<close>: the maximal runs of non-blank characters.\<close>

fun split_ws_aux :: "string \<Rightarrow> string \<Rightarrow> string list" where
  "split_ws_aux cur [] = (if cur = [] then [] else [cur])"
| "split_ws_aux cur (c # cs) =
     (if is_space c then (if cur = [] then split_ws_aux [] cs else cur # split_ws_aux [] cs)
      else split_ws_aux (cur @ [c]) cs)"

definition split_ws :: "string \<Rightarrow> string list" where
  "split_ws s = split_ws_aux [] s"

text \<open>\<^verbatim>\<open>string.split(s, d)\<close> for a one-character separator: empty fields are kept.\<close>

fun split_sep_aux :: "char \<Rightarrow> string \<Rightarrow> string \<Rightarrow> string list" where
  "split_sep_aux d cur [] = [cur]"
| "split_sep_aux d cur (c # cs) =
     (if c = d then cur # split_sep_aux d [] cs else split_sep_aux d (cur @ [c]) cs)"

definition split_sep :: "char \<Rightarrow> string \<Rightarrow> string list" where
  "split_sep d s = split_sep_aux d [] s"

text \<open>\<^verbatim>\<open>s.strip()\<close>\<close>

definition strip :: "string \<Rightarrow> string" where
  "strip s = rev (dropWhile is_space (rev (dropWhile is_space s)))"

text \<open>\<^verbatim>\<open>xs[i]\<close>: a negative index counts from the end; \<open>None\<close> is IndexError.\<close>

definition py_nth :: "'a list \<Rightarrow> int \<Rightarrow> 'a option" where
  "py_nth xs i =
     (if 0 \<le> i \<and> i < int (length xs) then Some (xs ! nat i)
      else if i < 0 \<and> - int (length xs) \<le> i then Some (xs ! nat (int (length xs) + i))
      else None)"

text \<open>\<^verbatim>\<open>xs.index(x)\<close>: the first position of \<open>x\<close>; \<open>None\<close> is ValueError.\<close>

fun list_index :: "'a list \<Rightarrow> 'a \<Rightarrow> nat option" where
  "list_index [] x = None"
| "list_index (y # ys) x =
     (if y = x then Some 0 else map_option Suc (list_index ys x))"

subsection \<open>Logging\<close>

definition logit :: "string \<Rightarrow> ('w, unit) proc" where
  "logit msg w = (Inr (), w, [Log msg])"

definition crit :: "string \<Rightarrow> ('w, unit) proc" where
  "crit msg = logit (''CRI: '' @ msg)"

definition warn :: "string \<Rightarrow> ('w, unit) proc" where
  "warn msg = logit (''WRN: '' @ msg)"

subsection \<open>Checkpoints and their time stamps\<close>

definition ssh_cmd :: "string \<Rightarrow> string" where
  "ssh_cmd host =
     (if host \<noteq> [] then ''ssh -o StrictHostKeyChecking=no '' @ TEGU_USER @ ''@'' @ host @ '' ''
      else [])"

definition get_checkpoint :: "'w env \<Rightarrow> string \<Rightarrow> ('w, bool) proc" where
  "get_checkpoint E host =
     try_except
       (pbind (check_call E (SYNC_CMD host)) (\<lambda>_. pret True))
       (\<lambda>e. e = CalledProcessError)
       (pbind (warn (''Could not sync chkpts from '' @ host)) (\<lambda>_. pret False))"

text \<open>
  \<^verbatim>\<open>extract_dt\<close>. In the \<^verbatim>\<open>try\<close> part \<open>toks\<close> is always bound, \<open>ttoks\<close> only when
  \<^verbatim>\<open>toks[c2]\<close> exists; \<open>body\<close> is \<open>None\<close> when anything in the \<^verbatim>\<open>try\<close> part raises. The
  handler formats its log line from \<^verbatim>\<open>toks[c1]\<close> and \<^verbatim>\<open>ttoks[0]\<close>, in this order, before
  it logs, and what these raise leaves the function.
\<close>

definition extract_dt :: "'w env \<Rightarrow> string \<Rightarrow> int \<Rightarrow> int \<Rightarrow> ('w, int) proc" where
  "extract_dt E str c1 c2 =
     (let toks = split_ws str;
          ttoks = map_option (split_sep (CHR ''.'')) (py_nth toks c2);
          body = (case ttoks of
                    None \<Rightarrow> None
                  | Some tt \<Rightarrow>
                      (case (py_nth toks c1, py_nth tt 0) of
                         (Some d, Some t) \<Rightarrow> strptime_mktime E (d @ '' '' @ t)
                       | _ \<Rightarrow> None))
      in case body of
           Some ts \<Rightarrow> pret ts
         | None \<Rightarrow>
             (case py_nth toks c1 of
                None \<Rightarrow> praise IndexError
              | Some d \<Rightarrow>
                  (case ttoks of
                     None \<Rightarrow> praise UnboundLocalError
                   | Some tt \<Rightarrow>
                       (case py_nth tt 0 of
                          None \<Rightarrow> praise IndexError
                        | Some t \<Rightarrow>
                            pbind (logit (''unable to build a timestamp from: '' @ d @ '' and '' @ t))
                              (\<lambda>_. pret 0)))))"

text \<open>The last expression of \<^verbatim>\<open>should_be_active\<close> (lines 169-170), with \<^verbatim>\<open>socket.getfqdn()\<close> as \<open>localhost\<close>.\<close>

definition final_comparison :: "int \<Rightarrow> int \<Rightarrow> int \<Rightarrow> string \<Rightarrow> string \<Rightarrow> bool" where
  "final_comparison ts_r ts_l skew host localhost =
     (ts_r + skew > ts_l \<or> (ts_r + skew = ts_l \<and> host < localhost))"

text \<open>
  \<^verbatim>\<open>should_be_active\<close>. Line 164 returns the name \<^verbatim>\<open>false\<close>, which Python does not know:
  evaluating it raises NameError, and the \<^verbatim>\<open>except\<close> clause of line 172 handles
  CalledProcessError only.
\<close>

definition should_be_active :: "'w env \<Rightarrow> string \<Rightarrow> ('w, bool) proc" where
  "should_be_active E host =
     (case split_sep (CHR ''.'') host of
        [] \<Rightarrow> praise IndexError
      | short # _ \<Rightarrow>
          pbind (get_checkpoint E host) (\<lambda>ok_r.
          if \<not> ok_r then pret False
          else
            pbind (get_checkpoint E []) (\<lambda>ok_l.
            if \<not> ok_l then pret True
            else
              try_except
                (pbind (logit (''checking clock skew: '' @ ssh_cmd host @ ''date +%s'')) (\<lambda>_.
                 pbind (check_output E (DATE_CMD host)) (\<lambda>out_r.
                 pbind (int_of_str E out_r) (\<lambda>time_r.
                 pbind (check_output E (DATE_CMD [])) (\<lambda>out_l.
                 pbind (int_of_str E out_l) (\<lambda>time_l.
                 let skew = time_l - time_r in
                 pbind (check_output E (TS_R_CMD short)) (\<lambda>ts_r_s.
                 pbind (check_output E TS_L_CMD) (\<lambda>ts_l_s.
                 if ts_r_s = [] \<or> ts_l_s = [] then
                   pbind (logit (''unable to find chkpt file info host:'' @ host)) (\<lambda>_.
                   praise NameError)
                 else
                   pbind (extract_dt E ts_r_s 3 4) (\<lambda>ts_r.
                   pbind (extract_dt E ts_l_s 5 6) (\<lambda>ts_l.
                   pret (final_comparison ts_r ts_l skew host (getfqdn E))))))))))))
                (\<lambda>e. e = CalledProcessError)
                (pbind (warn ''Could not get chkpt timestamps'') (\<lambda>_. pret False)))))"

subsection \<open>Probing, activating, deactivating\<close>

definition is_active :: "'w env \<Rightarrow> string \<Rightarrow> ('w, bool) proc" where
  "is_active E host =
     try_except
       (pbind (check_call E (PING_CMD host)) (\<lambda>_. pret True))
       (\<lambda>e. e = CalledProcessError)
       (pret False)"

definition deactivate_tegu :: "'w env \<Rightarrow> string \<Rightarrow> ('w, bool) proc" where
  "deactivate_tegu E host =
     try_except
       (pbind (check_call E (DEACTIVATE_CMD host)) (\<lambda>_. pret True))
       (\<lambda>e. e = CalledProcessError)
       (pret False)"

definition activate_tegu :: "'w env \<Rightarrow> string \<Rightarrow> ('w, bool) proc" where
  "activate_tegu E host =
     try_except
       (pbind (check_call E (ACTIVATE_CMD host)) (\<lambda>_. pret True))
       (\<lambda>e. e = CalledProcessError)
       (pret False)"

subsection \<open>The main loop\<close>

text \<open>
  The \<^verbatim>\<open>for host in standby_list\<close> loop of \<^verbatim>\<open>main_loop\<close>, with the two variables it
  updates; it returns them.
\<close>

fun check_hosts :: "'w env \<Rightarrow> string \<Rightarrow> string list \<Rightarrow> bool \<Rightarrow> bool \<Rightarrow> ('w, bool \<times> bool) proc" where
  "check_hosts E this_node [] i_am_active any_active = pret (i_am_active, any_active)"
| "check_hosts E this_node (host # hosts) i_am_active any_active =
     (if host = this_node then check_hosts E this_node hosts i_am_active any_active
      else
        pbind (is_active E host) (\<lambda>host_active.
        if i_am_active \<and> host_active then
          pbind (logit ''checking for split'') (\<lambda>_.
          pbind (should_be_active E host) (\<lambda>host_active.
          if host_active then
            pbind (logit (''deactivate myself, '' @ host @ '' already running'')) (\<lambda>_.
            pbind (deactivate_tegu E []) (\<lambda>_.
            check_hosts E this_node hosts False (any_active \<or> host_active)))
          else
            pbind (logit (''deactivate '' @ host @ '' already running here'')) (\<lambda>_.
            pbind (deactivate_tegu E host) (\<lambda>_.
            check_hosts E this_node hosts i_am_active (any_active \<or> host_active)))))
        else check_hosts E this_node hosts i_am_active (any_active \<or> host_active)))"

text \<open>One turn of the \<^verbatim>\<open>while True\<close> loop; the result is the new \<^verbatim>\<open>priority_wait\<close>.\<close>

definition cycle :: "'w env \<Rightarrow> string list \<Rightarrow> string \<Rightarrow> int \<Rightarrow> bool \<Rightarrow> ('w, bool) proc" where
  "cycle E standby_list this_node priority priority_wait =
     pbind (if \<not> priority_wait then sleep E HEARTBEAT_SEC
            else sleep E (PRI_WAIT_SEC * priority)) (\<lambda>_.
     pbind (is_active E ''localhost'') (\<lambda>i_am_active.
     pbind (check_hosts E this_node standby_list i_am_active i_am_active) (\<lambda>(i_am_active, any_active).
     if \<not> any_active then
       (if priority_wait \<or> priority = 0 then
          pbind (logit ''no running tegu found, starting here'') (\<lambda>_.
          pbind (activate_tegu E []) (\<lambda>_.
          pret False))
        else pret True)
     else pret priority_wait)))"

text \<open>
  The \<^verbatim>\<open>while True\<close> loop has no exit of its own: it ends only when a turn raises. \<open>None\<close>
  is the loop that runs forever; \<open>Some\<close> gives the exception that ended it, with the
  world and the effects up to there.
\<close>

partial_function (option) while_true ::
  "'w env \<Rightarrow> string list \<Rightarrow> string \<Rightarrow> int \<Rightarrow> bool \<Rightarrow> 'w \<Rightarrow> (py_exn \<times> 'w \<times> event list) option" where
  "while_true E standby_list this_node priority priority_wait w =
     (let r = cycle E standby_list this_node priority priority_wait w in
      if isl (fst r) then Some (projl (fst r), snd r)
      else Option.bind
             (while_true E standby_list this_node priority (projr (fst r)) (fst (snd r)))
             (\<lambda>(e, w2, t2). Some (e, w2, snd (snd r) @ t2)))"

definition main_loop ::
  "'w env \<Rightarrow> string list \<Rightarrow> string \<Rightarrow> int \<Rightarrow> 'w \<Rightarrow> (py_exn \<times> 'w \<times> event list) option" where
  "main_loop E standby_list this_node priority w =
     while_true E standby_list this_node priority False w"

subsection \<open>Startup\<close>

text \<open>
  Lines 262-273 of \<^verbatim>\<open>main\<close>, on the lines of the standby list file: the result is the
  working copy of the list, the node's name and its priority.
\<close>

definition startup :: "'w env \<Rightarrow> string list \<Rightarrow> ('w, string list \<times> string \<times> int) proc" where
  "startup E file_lines =
     pbind (logit ''tegu_ha v1.0 started'') (\<lambda>_.
     let standby_list = map strip file_lines;
         this_node = getfqdn E
     in case list_index standby_list this_node of
          Some priority \<Rightarrow> pret (remove1 this_node standby_list, this_node, int priority)
        | None \<Rightarrow>
            pbind (crit (''Could not find host '' @ this_node @ '' in standby list: '' @ STDBY_LIST)) (\<lambda>_.
            praise (SystemExit 1)))"

definition main :: "'w env \<Rightarrow> string list \<Rightarrow> 'w \<Rightarrow> (py_exn \<times> 'w \<times> event list) option" where
  "main E file_lines w =
     (case startup E file_lines w of
        (Inl e, w1, t1) \<Rightarrow> Some (e, w1, t1)
      | (Inr (standby_list, this_node, priority), w1, t1) \<Rightarrow>
          Option.bind (main_loop E standby_list this_node priority w1)
            (\<lambda>(e, w2, t2). Some (e, w2, t1 @ t2)))"

subsection \<open>Observations on the effects\<close>

text \<open>
  A node counts as active in a turn of the loop when its probe of that turn succeeds:
  \<open>active_count\<close> of the effects of a turn is the number of its successful probes. A
  procedure \<open>emits_only P\<close> when every effect it causes, in every world, satisfies \<open>P\<close>.
\<close>

fun is_ping :: "event \<Rightarrow> bool" where
  "is_ping (Exec (PING_CMD h) rc) = True"
| "is_ping _ = False"

fun is_pong :: "event \<Rightarrow> bool" where
  "is_pong (Exec (PING_CMD h) rc) = (rc = 0)"
| "is_pong _ = False"

fun is_activate :: "event \<Rightarrow> bool" where
  "is_activate (Exec (ACTIVATE_CMD h) rc) = True"
| "is_activate _ = False"

definition active_count :: "event list \<Rightarrow> nat" where
  "active_count tr = length (filter is_pong tr)"

definition emits_only :: "(event \<Rightarrow> bool) \<Rightarrow> ('w, 'a) proc \<Rightarrow> bool" where
  "emits_only P m = (\<forall>w. list_all P (snd (snd (m w))))"

subsection \<open>Example environments\<close>

text \<open>
  A world that counts the sleeps so far; the outcome of a command is looked up in a table
  that may depend on this count, and a command the table does not list fails with exit
  status 1 and no output.
\<close>

definition outcome :: "(command \<times> int \<times> string) list \<Rightarrow> command \<Rightarrow> int \<times> string" where
  "outcome tbl c = (case map_of tbl c of Some r \<Rightarrow> r | None \<Rightarrow> (1, []))"

definition example_env :: "(nat \<Rightarrow> (command \<times> int \<times> string) list) \<Rightarrow> string \<Rightarrow> nat env" where
  "example_env script fqdn =
     \<lparr> shell = (\<lambda>c w. (outcome (script w) c, w)),
       elapse = (\<lambda>d w. Suc w),
       py_int = map_of [(''1422612000'' @ [CHR 0x0A], 1422612000),
                        (''1422612060'' @ [CHR 0x0A], 1422612060)],
       strptime_mktime = map_of [(''2015-01-30 10:00:00'', 1422612000),
                                 (''2015-01-30 09:00:00'', 1422608400)],
       getfqdn = fqdn \<rparr>"

text \<open>
  Two nodes: the script runs on \<open>b.example.org\<close>, its peer is \<open>a.example.org\<close>, both answer the
  probe, both pulls succeed. The output of the remote clock and the two listings are left open.
\<close>

definition split_brain_script :: "string \<Rightarrow> string \<Rightarrow> string \<Rightarrow> (command \<times> int \<times> string) list" where
  "split_brain_script date_r ts_r_s ts_l_s =
     [(PING_CMD ''localhost'', 0, []),
      (PING_CMD ''a.example.org'', 0, []),
      (SYNC_CMD ''a.example.org'', 0, []),
      (SYNC_CMD [], 0, []),
      (DATE_CMD ''a.example.org'', 0, date_r),
      (DATE_CMD [], 0, ''1422612000'' @ [CHR 0x0A]),
      (TS_R_CMD ''a'', 0, ts_r_s),
      (TS_L_CMD, 0, ts_l_s)]"

definition date_line :: string where
  "date_line = ''1422612060'' @ [CHR 0x0A]"

definition ls_line :: string where
  "ls_line = ''-rw-r--r-- 1 tegu tegu 1234 2015-01-30 09:00:00.000000000 -0500 /var/lib/tegu/chkpt/resmgr_x.ckpt'' @ [CHR 0x0A]"

definition tar_line :: string where
  "tar_line = ''-rw-r--r-- tegu/tegu 1234 2015-01-30 10:00:00 resmgr_x.ckpt'' @ [CHR 0x0A]"

text \<open>Listings in which the local checkpoint is the newer one.\<close>

definition old_tar_line :: string where
  "old_tar_line = ''-rw-r--r-- tegu/tegu 1234 2015-01-30 09:00:00 resmgr_x.ckpt'' @ [CHR 0x0A]"

definition new_ls_line :: string where
  "new_ls_line = ''-rw-r--r-- 1 tegu tegu 1234 2015-01-30 10:00:00.000000000 -0500 /var/lib/tegu/chkpt/resmgr_x.ckpt'' @ [CHR 0x0A]"

text \<open>
  Three nodes, the script runs on the last one: nobody answers the probe before the
  second sleep is over, from then on \<open>a.example.org\<close> does.
\<close>

definition late_peer_script :: "nat \<Rightarrow> (command \<times> int \<times> string) list" where
  "late_peer_script w = (if w < 2 then [] else [(PING_CMD ''a.example.org'', 0, [])])"

section \<open>Effects of the procedures\<close>

lemma emits_only_pret: "emits_only P (pret a)"
  by (simp add: emits_only_def pret_def)

lemma emits_only_praise: "emits_only P (praise e)"
  by (simp add: emits_only_def praise_def)

lemma emits_only_pbind:
  assumes "emits_only P m" and "\<And>a. emits_only P (f a)"
  shows "emits_only P (pbind m f)"
proof -
  have "list_all P (snd (snd (pbind m f w)))" for w
  proof (cases "m w")
    case (fields r w1 t1)
    from assms(1) have t1: "list_all P t1"
      using fields by (auto simp: emits_only_def dest: spec [of _ w])
    show ?thesis
    proof (cases r)
      case (Inl e)
      with fields t1 show ?thesis by (simp add: pbind_def)
    next
      case (Inr a)
      obtain r2 w2 t2 where f: "f a w1 = (r2, w2, t2)" by (cases "f a w1")
      from assms(2) [of a] have "list_all P t2"
        using f by (auto simp: emits_only_def dest: spec [of _ w1])
      with fields Inr f t1 show ?thesis by (simp add: pbind_def)
    qed
  qed
  then show ?thesis by (simp add: emits_only_def)
qed

lemma emits_only_try_except:
  assumes "emits_only P m" and "emits_only P h"
  shows "emits_only P (try_except m handles h)"
proof -
  have "list_all P (snd (snd (try_except m handles h w)))" for w
  proof (cases "m w")
    case (fields r w1 t1)
    from assms(1) have t1: "list_all P t1"
      using fields by (auto simp: emits_only_def dest: spec [of _ w])
    obtain r2 w2 t2 where h: "h w1 = (r2, w2, t2)" by (cases "h w1")
    from assms(2) have "list_all P t2"
      using h by (auto simp: emits_only_def dest: spec [of _ w1])
    with fields h t1 show ?thesis by (cases r) (simp_all add: try_except_def)
  qed
  then show ?thesis by (simp add: emits_only_def)
qed

lemma emits_only_logit: "P (Log msg) \<Longrightarrow> emits_only P (logit msg)"
  by (simp add: emits_only_def logit_def)

lemma emits_only_check_call: "(\<And>rc. P (Exec c rc)) \<Longrightarrow> emits_only P (check_call E c)"
  by (simp add: emits_only_def check_call_def split: prod.splits)

lemma emits_only_check_output: "(\<And>rc. P (Exec c rc)) \<Longrightarrow> emits_only P (check_output E c)"
  by (simp add: emits_only_def check_output_def split: prod.splits)

lemma emits_only_int_of_str: "emits_only P (int_of_str E s)"
  by (simp add: int_of_str_def emits_only_pret emits_only_praise split: option.splits)

lemma emits_only_extract_dt: "(\<And>msg. P (Log msg)) \<Longrightarrow> emits_only P (extract_dt E s c1 c2)"
  by (auto simp: extract_dt_def Let_def emits_only_pret emits_only_praise
      intro!: emits_only_pbind emits_only_logit split: option.splits)

lemma emits_only_get_checkpoint:
  "(\<And>msg. P (Log msg)) \<Longrightarrow> (\<And>rc. P (Exec (SYNC_CMD host) rc)) \<Longrightarrow>
   emits_only P (get_checkpoint E host)"
  unfolding get_checkpoint_def warn_def
  by (intro emits_only_try_except emits_only_pbind emits_only_pret emits_only_logit
      emits_only_check_call)

lemma emits_only_should_be_active:
  assumes "\<And>msg. P (Log msg)"
      and "\<And>h rc. P (Exec (SYNC_CMD h) rc)"
      and "\<And>h rc. P (Exec (DATE_CMD h) rc)"
      and "\<And>h rc. P (Exec (TS_R_CMD h) rc)"
      and "\<And>rc. P (Exec TS_L_CMD rc)"
  shows "emits_only P (should_be_active E host)"
  unfolding should_be_active_def warn_def Let_def
  by (auto intro!: emits_only_try_except emits_only_pbind emits_only_pret emits_only_praise
      emits_only_logit emits_only_check_output emits_only_int_of_str emits_only_extract_dt
      emits_only_get_checkpoint assms split: list.splits)

section \<open>The comparison of checkpoints\<close>



section \<open>Conflict resolution\<close>

lemma split_sep_aux_not_Nil: "split_sep_aux d cur s \<noteq> []"
  by (induction s arbitrary: cur) auto

lemma split_sep_not_Nil: "split_sep d s \<noteq> []"
  by (simp add: split_sep_def split_sep_aux_not_Nil)

lemma get_checkpoint_eq:
  "shell E (SYNC_CMD host) w = ((rc, out), w1) \<Longrightarrow>
   get_checkpoint E host w =
     (if rc = 0 then (Inr True, w1, [Exec (SYNC_CMD host) rc])
      else (Inr False, w1,
            [Exec (SYNC_CMD host) rc, Log (''WRN: Could not sync chkpts from '' @ host)]))"
  by (simp add: get_checkpoint_def try_except_def pbind_def check_call_def pret_def warn_def
      logit_def)

text \<open>
  C8. When the pull of the remote node's checkpoints fails, \<^verbatim>\<open>should_be_active\<close> returns
  False and has done nothing but this pull and its warning; when it succeeds and the pull
  of the local checkpoints fails, \<^verbatim>\<open>should_be_active\<close> returns True and has done nothing
  but the two pulls and the warning.
\<close>

theorem should_be_active_sync_failure:
  assumes "shell E (SYNC_CMD host) w = ((rc_r, out_r), w1)"
      and "shell E (SYNC_CMD []) w1 = ((rc_l, out_l), w2)"
  shows "(rc_r \<noteq> 0 \<longrightarrow>
            should_be_active E host w =
              (Inr False, w1,
               [Exec (SYNC_CMD host) rc_r, Log (''WRN: Could not sync chkpts from '' @ host)]))
       \<and> (rc_r = 0 \<and> rc_l \<noteq> 0 \<longrightarrow>
            should_be_active E host w =
              (Inr True, w2,
               [Exec (SYNC_CMD host) 0, Exec (SYNC_CMD []) rc_l,
                Log ''WRN: Could not sync chkpts from '']))"
proof -
  obtain short rest where s: "split_sep (CHR ''.'') host = short # rest"
    using split_sep_not_Nil [of "CHR ''.''" host] by (cases "split_sep (CHR ''.'') host") auto
  show ?thesis
    using assms
    by (simp add: should_be_active_def s pbind_def pret_def get_checkpoint_eq)
qed

theorem should_be_active_sync_failure_witness:
  "should_be_active (example_env (\<lambda>_. [(SYNC_CMD [], 0, [])]) ''b.example.org'')
       ''a.example.org'' 0 =
     (Inr False, 0,
      [Exec (SYNC_CMD ''a.example.org'') 1,
       Log ''WRN: Could not sync chkpts from a.example.org''])
   \<and> should_be_active (example_env (\<lambda>_. [(SYNC_CMD ''a.example.org'', 0, [])]) ''b.example.org'')
       ''a.example.org'' 0 =
     (Inr True, 0,
      [Exec (SYNC_CMD ''a.example.org'') 0, Exec (SYNC_CMD []) 1,
       Log ''WRN: Could not sync chkpts from ''])"
proof -
  let ?E1 = "example_env (\<lambda>_. [(SYNC_CMD [], 0, [])]) ''b.example.org''"
  let ?E2 = "example_env (\<lambda>_. [(SYNC_CMD ''a.example.org'', 0, [])]) ''b.example.org''"
  have r1: "shell ?E1 (SYNC_CMD ''a.example.org'') 0 = ((1, []), 0)"
    by (simp add: example_env_def outcome_def)
  have l1: "shell ?E1 (SYNC_CMD []) 0 = ((0, []), 0)"
    by (simp add: example_env_def outcome_def)
  have r2: "shell ?E2 (SYNC_CMD ''a.example.org'') 0 = ((0, []), 0)"
    by (simp add: example_env_def outcome_def)
  have l2: "shell ?E2 (SYNC_CMD []) 0 = ((1, []), 0)"
    by (simp add: example_env_def outcome_def)
  from should_be_active_sync_failure [OF r1 l1] should_be_active_sync_failure [OF r2 l2]
  show ?thesis by simp
qed

lemma should_be_active_no_checkpoint:
  assumes "shell E (SYNC_CMD host) w = ((0, o1), w1)"
      and "shell E (SYNC_CMD []) w1 = ((0, o2), w2)"
      and "shell E (DATE_CMD host) w2 = ((0, out_r), w3)"
      and "py_int E out_r = Some time_r"
      and "shell E (DATE_CMD []) w3 = ((0, out_l), w4)"
      and "py_int E out_l = Some time_l"
      and "shell E (TS_R_CMD (hd (split_sep (CHR ''.'') host))) w4 = ((0, ts_r_s), w5)"
      and "shell E TS_L_CMD w5 = ((0, ts_l_s), w6)"
      and "ts_r_s = [] \<or> ts_l_s = []"
  shows "should_be_active E host w =
           (Inl NameError, w6,
            [Exec (SYNC_CMD host) 0, Exec (SYNC_CMD []) 0,
             Log (''checking clock skew: '' @ ssh_cmd host @ ''date +%s''),
             Exec (DATE_CMD host) 0, Exec (DATE_CMD []) 0,
             Exec (TS_R_CMD (hd (split_sep (CHR ''.'') host))) 0, Exec TS_L_CMD 0,
             Log (''unable to find chkpt file info host:'' @ host)])"
proof -
  obtain short rest where s: "split_sep (CHR ''.'') host = short # rest"
    using split_sep_not_Nil [of "CHR ''.''" host] by (cases "split_sep (CHR ''.'') host") auto
  show ?thesis
    using assms
    by (simp add: should_be_active_def s pbind_def pret_def praise_def try_except_def
        get_checkpoint_eq check_output_def logit_def int_of_str_def)
qed

lemma should_be_active_clock_unparsable:
  assumes "shell E (SYNC_CMD host) w = ((0, o1), w1)"
      and "shell E (SYNC_CMD []) w1 = ((0, o2), w2)"
      and "shell E (DATE_CMD host) w2 = ((0, out_r), w3)"
      and "py_int E out_r = None"
  shows "should_be_active E host w =
           (Inl ValueError, w3,
            [Exec (SYNC_CMD host) 0, Exec (SYNC_CMD []) 0,
             Log (''checking clock skew: '' @ ssh_cmd host @ ''date +%s''),
             Exec (DATE_CMD host) 0])"
proof -
  obtain short rest where s: "split_sep (CHR ''.'') host = short # rest"
    using split_sep_not_Nil [of "CHR ''.''" host] by (cases "split_sep (CHR ''.'') host") auto
  show ?thesis
    using assms
    by (simp add: should_be_active_def s pbind_def pret_def praise_def try_except_def
        get_checkpoint_eq check_output_def logit_def int_of_str_def)
qed

text \<open>
  When both pulls, both clock readings and both listings succeed, and both time stamps are
  extracted, \<^verbatim>\<open>should_be_active\<close> returns the final comparison of the two time stamps under
  the skew \<open>time_l - time_r\<close>.
\<close>

lemma should_be_active_compares:
  assumes "shell E (SYNC_CMD host) w = ((0, o1), w1)"
      and "shell E (SYNC_CMD []) w1 = ((0, o2), w2)"
      and "shell E (DATE_CMD host) w2 = ((0, out_r), w3)"
      and "py_int E out_r = Some time_r"
      and "shell E (DATE_CMD []) w3 = ((0, out_l), w4)"
      and "py_int E out_l = Some time_l"
      and "shell E (TS_R_CMD (hd (split_sep (CHR ''.'') host))) w4 = ((0, ts_r_s), w5)"
      and "shell E TS_L_CMD w5 = ((0, ts_l_s), w6)"
      and "ts_r_s \<noteq> []" and "ts_l_s \<noteq> []"
      and "extract_dt E ts_r_s 3 4 w6 = (Inr ts_r, w6, t_r)"
      and "extract_dt E ts_l_s 5 6 w6 = (Inr ts_l, w6, t_l)"
  shows "fst (should_be_active E host w) =
           Inr (final_comparison ts_r ts_l (time_l - time_r) host (getfqdn E))"
proof -
  obtain short rest where s: "split_sep (CHR ''.'') host = short # rest"
    using split_sep_not_Nil [of "CHR ''.''" host] by (cases "split_sep (CHR ''.'') host") auto
  show ?thesis
    using assms
    by (simp add: should_be_active_def s pbind_def pret_def try_except_def
        get_checkpoint_eq check_output_def logit_def int_of_str_def)
qed

text \<open>
  C6. With both pulls and both clock readings done, a listing command that prints nothing
  should make \<^verbatim>\<open>should_be_active\<close> log the condition and return False. Here the remote
  listing is empty: the condition is logged, and then line 164 raises NameError, which
  leaves \<^verbatim>\<open>should_be_active\<close>.
\<close>

theorem should_be_active_empty_listing_raises:
  "should_be_active (example_env (\<lambda>_. split_brain_script date_line [] ls_line) ''b.example.org'')
       ''a.example.org'' 0 =
     (Inl NameError, 0,
      [Exec (SYNC_CMD ''a.example.org'') 0, Exec (SYNC_CMD []) 0,
       Log ''checking clock skew: ssh -o StrictHostKeyChecking=no tegu@a.example.org date +%s'',
       Exec (DATE_CMD ''a.example.org'') 0, Exec (DATE_CMD []) 0,
       Exec (TS_R_CMD ''a'') 0, Exec TS_L_CMD 0,
       Log ''unable to find chkpt file info host:a.example.org''])"
  by (simp add: should_be_active_def split_sep_def pbind_def pret_def praise_def try_except_def
      get_checkpoint_def check_call_def check_output_def warn_def logit_def int_of_str_def
      example_env_def outcome_def split_brain_script_def date_line_def ls_line_def ssh_cmd_def
      TEGU_USER_def)

section \<open>Extraction of time stamps\<close>

lemma py_nth_split_sep_0: "py_nth (split_sep d s) 0 = Some (hd (split_sep d s))"
  using split_sep_not_Nil [of d s]
  by (cases "split_sep d s") (simp_all add: py_nth_def)

lemma extract_dt_with_fields:
  assumes "py_nth (split_ws s) c1 = Some d" and "py_nth (split_ws s) c2 = Some tm"
  shows "extract_dt E s c1 c2 w =
           (case strptime_mktime E (d @ '' '' @ hd (split_sep (CHR ''.'') tm)) of
              Some ts \<Rightarrow> (Inr ts, w, [])
            | None \<Rightarrow>
                (Inr 0, w,
                 [Log (''unable to build a timestamp from: '' @ d @ '' and ''
                       @ hd (split_sep (CHR ''.'') tm))]))"
  using assms
  by (simp add: extract_dt_def py_nth_split_sep_0 pbind_def pret_def logit_def
      split: option.splits)

text \<open>
  C7. \<^verbatim>\<open>extract_dt\<close> should return 0 on any input it cannot read as a date and a time.
  On an input with too few fields the handler itself raises while it formats its log
  line: IndexError when the date field is missing, UnboundLocalError when only the time
  field is.
\<close>

theorem extract_dt_raises_on_missing_fields:
  "extract_dt E [] 3 4 w = (Inl IndexError, w, [])
   \<and> extract_dt E ''-rw-r--r-- tegu/tegu 1234 2015-01-30'' 3 4 w = (Inl UnboundLocalError, w, [])"
  by (simp add: extract_dt_def split_ws_def split_sep_def py_nth_def praise_def is_space_def)

section \<open>Startup\<close>

lemma list_index_None: "list_index xs x = None \<longleftrightarrow> x \<notin> set xs"
  by (induction xs) auto

lemma list_index_first:
  "x \<in> set xs \<Longrightarrow> list_index xs x = Some (length (takeWhile (\<lambda>y. y \<noteq> x) xs))"
  by (induction xs) auto

lemma first_occurrence:
  "x \<in> set xs \<Longrightarrow>
     length (takeWhile (\<lambda>y. y \<noteq> x) xs) < length xs
     \<and> xs ! length (takeWhile (\<lambda>y. y \<noteq> x) xs) = x
     \<and> x \<notin> set (take (length (takeWhile (\<lambda>y. y \<noteq> x) xs)) xs)"
  by (induction xs) auto

lemma count_list_1_remove1: "count_list xs x = 1 \<Longrightarrow> x \<notin> set (remove1 x xs)"
proof (induction xs)
  case Nil
  then show ?case by simp
next
  case (Cons y ys)
  show ?case
  proof (cases "y = x")
    case True
    with Cons.prems have "count_list ys x = 0" by simp
    then have "x \<notin> set ys" by (simp add: count_list_0_iff)
    with True show ?thesis by simp
  next
    case False
    with Cons show ?thesis by simp
  qed
qed

text \<open>
  C5, as the code has it. Startup succeeds exactly when the local node's name is in the
  standby list, at least once: the priority is the 0-based position of its first
  occurrence, and the working copy is the list without that first occurrence, so a name
  that occurs exactly once is no longer in it. When the name is not in the list, a critical
  line is logged and the process exits with status 1.
\<close>

theorem startup_first_occurrence:
  assumes "sl = map strip file_lines" and "this = getfqdn E"
      and "p = length (takeWhile (\<lambda>h. h \<noteq> this) sl)"
  shows "(this \<in> set sl \<longrightarrow>
            startup E file_lines w =
              (Inr (remove1 this sl, this, int p), w, [Log ''tegu_ha v1.0 started''])
            \<and> p < length sl \<and> sl ! p = this \<and> this \<notin> set (take p sl))
       \<and> (count_list sl this = 1 \<longrightarrow> this \<notin> set (remove1 this sl))
       \<and> (this \<notin> set sl \<longrightarrow>
            startup E file_lines w =
              (Inl (SystemExit 1), w,
               [Log ''tegu_ha v1.0 started'',
                Log (''CRI: Could not find host '' @ this
                     @ '' in standby list: /etc/tegu/standby_list'')]))"
proof (intro conjI impI)
  assume mem: "this \<in> set sl"
  then show "startup E file_lines w =
      (Inr (remove1 this sl, this, int p), w, [Log ''tegu_ha v1.0 started''])"
    using assms
    by (simp add: startup_def pbind_def logit_def pret_def Let_def list_index_first
        del: set_map)
  from first_occurrence [OF mem] show "p < length sl" and "sl ! p = this"
    and "this \<notin> set (take p sl)"
    unfolding assms(3) by simp_all
next
  assume "count_list sl this = 1"
  then show "this \<notin> set (remove1 this sl)" by (rule count_list_1_remove1)
next
  assume "this \<notin> set sl"
  then have "list_index sl this = None" by (simp add: list_index_None)
  then show "startup E file_lines w =
      (Inl (SystemExit 1), w,
       [Log ''tegu_ha v1.0 started'',
        Log (''CRI: Could not find host '' @ this
             @ '' in standby list: /etc/tegu/standby_list'')])"
    using assms
    by (simp add: startup_def pbind_def logit_def praise_def crit_def Let_def STDBY_LIST_def)
qed


text \<open>
  A standby list that names the local node twice: startup succeeds, with the first position
  as priority, and the second occurrence stays in the working copy.
\<close>

theorem startup_duplicate_counterexample:
  "startup (example_env (\<lambda>_. []) ''b.example.org'')
       [''a.example.org'' @ [CHR 0x0A], ''b.example.org'' @ [CHR 0x0A],
        ''b.example.org'' @ [CHR 0x0A]] 0 =
     (Inr ([''a.example.org'', ''b.example.org''], ''b.example.org'', 1), 0,
      [Log ''tegu_ha v1.0 started''])
   \<and> count_list (map strip [''a.example.org'' @ [CHR 0x0A], ''b.example.org'' @ [CHR 0x0A],
        ''b.example.org'' @ [CHR 0x0A]]) ''b.example.org'' = 2"
  by (simp add: startup_def pbind_def logit_def pret_def Let_def strip_def is_space_def example_env_def)

theorem startup_first_occurrence_witness:
  "startup (example_env (\<lambda>_. []) ''b.example.org'')
       [''a.example.org'' @ [CHR 0x0A], ''b.example.org'' @ [CHR 0x0A],
        ''c.example.org'' @ [CHR 0x0A]] 0 =
     (Inr ([''a.example.org'', ''c.example.org''], ''b.example.org'', 1), 0,
      [Log ''tegu_ha v1.0 started''])
   \<and> ''b.example.org'' \<notin> set [''a.example.org'', ''c.example.org'']
   \<and> startup (example_env (\<lambda>_. []) ''d.example.org'')
       [''a.example.org'' @ [CHR 0x0A], ''b.example.org'' @ [CHR 0x0A],
        ''c.example.org'' @ [CHR 0x0A]] 0 =
     (Inl (SystemExit 1), 0,
      [Log ''tegu_ha v1.0 started'',
       Log ''CRI: Could not find host d.example.org in standby list: /etc/tegu/standby_list''])"
proof -
  let ?lines = "[''a.example.org'' @ [CHR 0x0A], ''b.example.org'' @ [CHR 0x0A],
        ''c.example.org'' @ [CHR 0x0A]]"
  let ?sl = "[''a.example.org'', ''b.example.org'', ''c.example.org'']"
  have sl: "?sl = map strip ?lines" by (simp add: strip_def is_space_def)
  have b: "''b.example.org'' = getfqdn (example_env (\<lambda>_. []) ''b.example.org'')"
    by (simp add: example_env_def)
  have d: "''d.example.org'' = getfqdn (example_env (\<lambda>_. []) ''d.example.org'')"
    by (simp add: example_env_def)
  have pb: "(1::nat) = length (takeWhile (\<lambda>h. h \<noteq> ''b.example.org'') ?sl)" by simp
  have pd: "(3::nat) = length (takeWhile (\<lambda>h. h \<noteq> ''d.example.org'') ?sl)" by simp
  from startup_first_occurrence [OF sl b pb, of 0] startup_first_occurrence [OF sl d pd, of 0]
  show ?thesis by simp
qed

section \<open>The loop\<close>

lemma is_active_eq:
  "is_active E host w =
     (case shell E (PING_CMD host) w of
        ((rc, out), w1) \<Rightarrow> (Inr (rc = 0), w1, [Exec (PING_CMD host) rc]))"
  by (simp add: is_active_def try_except_def pbind_def check_call_def pret_def
      split: prod.splits)

lemma deactivate_tegu_eq:
  "deactivate_tegu E host w =
     (case shell E (DEACTIVATE_CMD host) w of
        ((rc, out), w1) \<Rightarrow> (Inr (rc = 0), w1, [Exec (DEACTIVATE_CMD host) rc]))"
  by (simp add: deactivate_tegu_def try_except_def pbind_def check_call_def pret_def
      split: prod.splits)

lemma activate_tegu_eq:
  "activate_tegu E host w =
     (case shell E (ACTIVATE_CMD host) w of
        ((rc, out), w1) \<Rightarrow> (Inr (rc = 0), w1, [Exec (ACTIVATE_CMD host) rc]))"
  by (simp add: activate_tegu_def try_except_def pbind_def check_call_def pret_def
      split: prod.splits)

lemma while_true_raises:
  "cycle E standby_list this_node priority priority_wait w = (Inl e, w1, t1) \<Longrightarrow>
   while_true E standby_list this_node priority priority_wait w = Some (e, w1, t1)"
  by (subst while_true.simps) simp

lemma cycle_empty_listing:
  "cycle (example_env (\<lambda>_. split_brain_script date_line [] ls_line) ''b.example.org'')
       [''a.example.org''] ''b.example.org'' 1 False 0 =
     (Inl NameError, 1,
      [Sleep 5, Exec (PING_CMD ''localhost'') 0, Exec (PING_CMD ''a.example.org'') 0,
       Log ''checking for split'',
       Exec (SYNC_CMD ''a.example.org'') 0, Exec (SYNC_CMD []) 0,
       Log ''checking clock skew: ssh -o StrictHostKeyChecking=no tegu@a.example.org date +%s'',
       Exec (DATE_CMD ''a.example.org'') 0, Exec (DATE_CMD []) 0,
       Exec (TS_R_CMD ''a'') 0, Exec TS_L_CMD 0,
       Log ''unable to find chkpt file info host:a.example.org''])"
  by (simp add: cycle_def sleep_def is_active_eq HEARTBEAT_SEC_def
      should_be_active_def split_sep_def pbind_def pret_def praise_def try_except_def
      get_checkpoint_def check_call_def check_output_def warn_def logit_def int_of_str_def
      example_env_def outcome_def split_brain_script_def date_line_def ls_line_def ssh_cmd_def
      TEGU_USER_def)

lemma cycle_clock_unparsable:
  "cycle (example_env (\<lambda>_. split_brain_script ''date: command not found'' tar_line ls_line) ''b.example.org'')
       [''a.example.org''] ''b.example.org'' 1 False 0 =
     (Inl ValueError, 1,
      [Sleep 5, Exec (PING_CMD ''localhost'') 0, Exec (PING_CMD ''a.example.org'') 0,
       Log ''checking for split'',
       Exec (SYNC_CMD ''a.example.org'') 0, Exec (SYNC_CMD []) 0,
       Log ''checking clock skew: ssh -o StrictHostKeyChecking=no tegu@a.example.org date +%s'',
       Exec (DATE_CMD ''a.example.org'') 0])"
  by (simp add: cycle_def sleep_def is_active_eq HEARTBEAT_SEC_def
      should_be_active_def split_sep_def pbind_def pret_def praise_def try_except_def
      get_checkpoint_def check_call_def check_output_def warn_def logit_def int_of_str_def
      example_env_def outcome_def split_brain_script_def ssh_cmd_def
      TEGU_USER_def)

text \<open>
  C9. After a successful startup the loop should run forever, whatever the commands
  return. Here both nodes answer the probe and both pulls succeed. In the first world the
  remote listing is empty, and the first turn of the loop ends it with the NameError of
  line 164; in the second the remote clock prints no number, and the first turn ends the
  loop with the ValueError of \<^verbatim>\<open>int\<close> on line 154.
\<close>

theorem main_loop_terminates_on_runtime_failure:
  "main_loop (example_env (\<lambda>_. split_brain_script date_line [] ls_line) ''b.example.org'')
       [''a.example.org''] ''b.example.org'' 1 0 =
     Some (NameError, 1,
      [Sleep 5, Exec (PING_CMD ''localhost'') 0, Exec (PING_CMD ''a.example.org'') 0,
       Log ''checking for split'',
       Exec (SYNC_CMD ''a.example.org'') 0, Exec (SYNC_CMD []) 0,
       Log ''checking clock skew: ssh -o StrictHostKeyChecking=no tegu@a.example.org date +%s'',
       Exec (DATE_CMD ''a.example.org'') 0, Exec (DATE_CMD []) 0,
       Exec (TS_R_CMD ''a'') 0, Exec TS_L_CMD 0,
       Log ''unable to find chkpt file info host:a.example.org''])
   \<and> main_loop (example_env (\<lambda>_. split_brain_script ''date: command not found'' tar_line ls_line)
         ''b.example.org'')
       [''a.example.org''] ''b.example.org'' 1 0 =
     Some (ValueError, 1,
      [Sleep 5, Exec (PING_CMD ''localhost'') 0, Exec (PING_CMD ''a.example.org'') 0,
       Log ''checking for split'',
       Exec (SYNC_CMD ''a.example.org'') 0, Exec (SYNC_CMD []) 0,
       Log ''checking clock skew: ssh -o StrictHostKeyChecking=no tegu@a.example.org date +%s'',
       Exec (DATE_CMD ''a.example.org'') 0])"
  unfolding main_loop_def
  by (simp add: while_true_raises [OF cycle_empty_listing]
      while_true_raises [OF cycle_clock_unparsable])

section \<open>One turn of the loop\<close>

lemma active_count_simps:
  "active_count [] = 0"
  "active_count (Exec (PING_CMD h) rc # tr) = (if rc = 0 then Suc (active_count tr) else active_count tr)"
  "active_count (tr @ tr') = active_count tr + active_count tr'"
  by (simp_all add: active_count_def)

lemma check_hosts_Cons_other:
  "host \<noteq> this_node \<Longrightarrow>
   check_hosts E this_node (host # hosts) i_am_active any_active w =
     (case shell E (PING_CMD host) w of
        ((rc, out), w1) \<Rightarrow>
          (if i_am_active \<and> rc = 0 then
             (case pbind (logit ''checking for split'') (\<lambda>_.
                   pbind (should_be_active E host) (\<lambda>host_active.
                   if host_active then
                     pbind (logit (''deactivate myself, '' @ host @ '' already running'')) (\<lambda>_.
                     pbind (deactivate_tegu E []) (\<lambda>_.
                     check_hosts E this_node hosts False (any_active \<or> host_active)))
                   else
                     pbind (logit (''deactivate '' @ host @ '' already running here'')) (\<lambda>_.
                     pbind (deactivate_tegu E host) (\<lambda>_.
                     check_hosts E this_node hosts i_am_active (any_active \<or> host_active))))) w1 of
                (r, w2, t2) \<Rightarrow> (r, w2, Exec (PING_CMD host) rc # t2))
           else
             (case check_hosts E this_node hosts i_am_active (any_active \<or> rc = 0) w1 of
                (r, w2, t2) \<Rightarrow> (r, w2, Exec (PING_CMD host) rc # t2))))"
  by (simp add: pbind_def [of "is_active E host"] is_active_eq split: prod.splits)

lemma check_hosts_self_inactive:
  "check_hosts E this_node hosts False any_active w = (r, w', tr) \<Longrightarrow>
     list_all is_ping tr \<and> r = Inr (False, any_active \<or> 0 < active_count tr)"
proof (induction hosts arbitrary: any_active w r w' tr)
  case Nil
  then show ?case by (simp add: pret_def active_count_simps)
next
  case (Cons host hosts)
  show ?case
  proof (cases "host = this_node")
    case True
    with Cons show ?thesis by simp
  next
    case False
    obtain rc out w1 where sh: "shell E (PING_CMD host) w = ((rc, out), w1)"
      by (metis surj_pair)
    obtain r2 w2 t2 where rest:
      "check_hosts E this_node hosts False (any_active \<or> rc = 0) w1 = (r2, w2, t2)"
      by (metis surj_pair)
    from Cons.prems have eq: "r = r2" "tr = Exec (PING_CMD host) rc # t2"
      unfolding check_hosts_Cons_other [OF False] using sh rest by simp_all
    from Cons.IH [OF rest] eq show ?thesis
      by (auto simp: active_count_simps)
  qed
qed

lemma pbind_trace:
  "pbind m f w = (r, w', tr) \<Longrightarrow> \<exists>t2. tr = snd (snd (m w)) @ t2"
  by (auto simp: pbind_def split: prod.splits sum.splits)

lemma check_hosts_no_peer_active:
  "check_hosts E this_node hosts True any_active w = (r, w', tr) \<Longrightarrow>
   active_count tr = 0 \<Longrightarrow>
     list_all is_ping tr \<and> r = Inr (True, any_active)"
proof (induction hosts arbitrary: any_active w r w' tr)
  case Nil
  then show ?case by (simp add: pret_def)
next
  case (Cons host hosts)
  show ?case
  proof (cases "host = this_node")
    case True
    with Cons show ?thesis by simp
  next
    case False
    obtain rc out w1 where sh: "shell E (PING_CMD host) w = ((rc, out), w1)"
      by (metis surj_pair)
    have rc: "rc \<noteq> 0"
    proof
      assume "rc = 0"
      with Cons.prems(1) sh obtain t2 where "tr = Exec (PING_CMD host) 0 # t2"
        unfolding check_hosts_Cons_other [OF False] by (auto split: prod.splits)
      with Cons.prems(2) show False by (simp add: active_count_simps)
    qed
    obtain r2 w2 t2 where rest:
      "check_hosts E this_node hosts True any_active w1 = (r2, w2, t2)"
      by (metis surj_pair)
    from Cons.prems(1) have eq: "r = r2" "tr = Exec (PING_CMD host) rc # t2"
      unfolding check_hosts_Cons_other [OF False] using sh rest rc by simp_all
    with Cons.prems(2) rc have "active_count t2 = 0" by (simp add: active_count_simps)
    from Cons.IH [OF rest this] eq show ?thesis by simp
  qed
qed

lemma pbind_Inr:
  "pbind m f w = (Inr b, w', tr) \<Longrightarrow>
     \<exists>a w1 t1 t2. m w = (Inr a, w1, t1) \<and> f a w1 = (Inr b, w', t2) \<and> tr = t1 @ t2"
  by (auto simp: pbind_def split: prod.splits sum.splits)

lemma check_hosts_any_active_stays:
  "check_hosts E this_node hosts i_am_active True w = (Inr (i, a), w', tr) \<Longrightarrow> a"
proof (induction hosts arbitrary: i_am_active w w' tr)
  case Nil
  then show ?case by (simp add: pret_def)
next
  case (Cons host hosts)
  show ?case
  proof (cases "host = this_node")
    case True
    with Cons show ?thesis by simp
  next
    case False
    with Cons.prems show ?thesis
      by (auto dest!: pbind_Inr Cons.IH split: if_splits)
  qed
qed

lemma emits_only_is_active:
  "(\<And>rc. P (Exec (PING_CMD host) rc)) \<Longrightarrow> emits_only P (is_active E host)"
  unfolding is_active_def
  by (intro emits_only_try_except emits_only_pbind emits_only_pret emits_only_check_call)

lemma emits_only_deactivate_tegu:
  "(\<And>rc. P (Exec (DEACTIVATE_CMD host) rc)) \<Longrightarrow> emits_only P (deactivate_tegu E host)"
  unfolding deactivate_tegu_def
  by (intro emits_only_try_except emits_only_pbind emits_only_pret emits_only_check_call)

lemma emits_only_check_hosts:
  assumes "\<And>e. \<not> is_activate e \<Longrightarrow> P e"
  shows "emits_only P (check_hosts E this_node hosts i_am_active any_active)"
proof (induction hosts arbitrary: i_am_active any_active)
  case Nil
  show ?case by (simp add: emits_only_pret)
next
  case (Cons host hosts)
  show ?case
    by (auto intro!: emits_only_pbind emits_only_logit emits_only_is_active
        emits_only_deactivate_tegu emits_only_should_be_active Cons assms)
qed

lemma check_hosts_never_activates:
  "check_hosts E this_node hosts i_am_active any_active w = (r, w', tr) \<Longrightarrow>
     list_all (\<lambda>e. \<not> is_activate e) tr"
  using emits_only_check_hosts [of "\<lambda>e. \<not> is_activate e" E this_node hosts i_am_active any_active]
  by (auto simp: emits_only_def dest: spec [of _ w])

lemma cycle_eq:
  "cycle E standby_list this_node priority priority_wait w =
     (let d = (if \<not> priority_wait then HEARTBEAT_SEC else PRI_WAIT_SEC * priority) in
      case shell E (PING_CMD ''localhost'') (elapse E d w) of
        ((rc0, out0), w1) \<Rightarrow>
          (case check_hosts E this_node standby_list (rc0 = 0) (rc0 = 0) w1 of
             (Inl e, w2, t2) \<Rightarrow> (Inl e, w2, Sleep d # Exec (PING_CMD ''localhost'') rc0 # t2)
           | (Inr (i_am_active, any_active), w2, t2) \<Rightarrow>
               (if \<not> any_active then
                  (if priority_wait \<or> priority = 0 then
                     (case shell E (ACTIVATE_CMD []) w2 of
                        ((rca, outa), w3) \<Rightarrow>
                          (Inr False, w3,
                           Sleep d # Exec (PING_CMD ''localhost'') rc0 # t2 @
                           [Log ''no running tegu found, starting here'',
                            Exec (ACTIVATE_CMD []) rca]))
                   else (Inr True, w2, Sleep d # Exec (PING_CMD ''localhost'') rc0 # t2))
                else (Inr priority_wait, w2, Sleep d # Exec (PING_CMD ''localhost'') rc0 # t2))))"
  by (simp add: cycle_def pbind_def sleep_def is_active_eq activate_tegu_eq logit_def pret_def
      Let_def split: prod.splits sum.splits)

lemma cycle_starts_with_sleep:
  "\<exists>rest. snd (snd (cycle E standby_list this_node priority priority_wait w)) =
     Sleep (if \<not> priority_wait then HEARTBEAT_SEC else PRI_WAIT_SEC * priority) # rest"
  by (simp add: cycle_eq Let_def split: prod.splits sum.splits)

lemma cycle_activates_only_if_none_active:
  assumes "cycle E standby_list this_node priority priority_wait w = (r, w', tr)"
      and "\<not> list_all (\<lambda>e. \<not> is_activate e) tr"
  shows "active_count tr = 0"
proof -
  define d where "d = (if \<not> priority_wait then HEARTBEAT_SEC else PRI_WAIT_SEC * priority)"
  obtain rc0 out0 w1 where sh: "shell E (PING_CMD ''localhost'') (elapse E d w) = ((rc0, out0), w1)"
    by (metis surj_pair)
  obtain r2 w2 t2 where ch: "check_hosts E this_node standby_list (rc0 = 0) (rc0 = 0) w1 = (r2, w2, t2)"
    by (metis surj_pair)
  have na: "list_all (\<lambda>e. \<not> is_activate e) t2"
    using ch by (rule check_hosts_never_activates)
  show ?thesis
  proof (cases "rc0 = 0")
    case True
    have "list_all (\<lambda>e. \<not> is_activate e) tr"
    proof (cases r2)
      case (Inl e)
      with assms(1) sh ch na show ?thesis
        by (auto simp: cycle_eq d_def [symmetric])
    next
      case (Inr p)
      obtain i a where p: "p = (i, a)" by (cases p)
      from ch True Inr p have a by (auto dest: check_hosts_any_active_stays)
      with assms(1) sh ch na Inr p show ?thesis
        by (auto simp: cycle_eq d_def [symmetric])
    qed
    with assms(2) show ?thesis by simp
  next
    case False
    with ch have ch': "check_hosts E this_node standby_list False False w1 = (r2, w2, t2)" by simp
    from check_hosts_self_inactive [OF ch']
    have r2: "r2 = Inr (False, 0 < active_count t2)" by simp
    show ?thesis
    proof (cases "0 < active_count t2")
      case True
      with assms(1) sh ch r2 na False have "list_all (\<lambda>e. \<not> is_activate e) tr"
        by (auto simp: cycle_eq d_def [symmetric])
      with assms(2) show ?thesis by simp
    next
      case False
      with assms(1) sh ch r2 \<open>rc0 \<noteq> 0\<close> show ?thesis
        by (auto simp: cycle_eq d_def [symmetric] active_count_def split: if_splits prod.splits)
    qed
  qed
qed

lemma none_active_turn:
  assumes "cycle E standby_list this_node priority priority_wait w = (r, w', tr)"
      and "active_count tr = 0"
  shows "\<exists>pings. list_all is_ping pings \<and>
           (if priority_wait \<or> priority = 0
            then r = Inr False \<and>
                 (\<exists>rc. tr = Sleep (if \<not> priority_wait then HEARTBEAT_SEC else PRI_WAIT_SEC * priority)
                            # pings @ [Log ''no running tegu found, starting here'',
                                       Exec (ACTIVATE_CMD []) rc])
            else r = Inr True \<and>
                 tr = Sleep (if \<not> priority_wait then HEARTBEAT_SEC else PRI_WAIT_SEC * priority)
                        # pings)"
proof -
  define d where "d = (if \<not> priority_wait then HEARTBEAT_SEC else PRI_WAIT_SEC * priority)"
  obtain rc0 out0 w1 where sh: "shell E (PING_CMD ''localhost'') (elapse E d w) = ((rc0, out0), w1)"
    by (metis surj_pair)
  obtain r2 w2 t2 where ch: "check_hosts E this_node standby_list (rc0 = 0) (rc0 = 0) w1 = (r2, w2, t2)"
    by (metis surj_pair)
  obtain rca outa w3 where ac: "shell E (ACTIVATE_CMD []) w2 = ((rca, outa), w3)"
    by (metis surj_pair)
  have tr: "\<exists>t3. tr = Sleep d # Exec (PING_CMD ''localhost'') rc0 # t2 @ t3"
    using assms(1) sh ch
    by (auto simp: cycle_eq d_def [symmetric] split: sum.splits if_splits prod.splits)
  with assms(2) have rc0: "rc0 \<noteq> 0" and t2: "active_count t2 = 0"
    by (auto simp: active_count_def split: if_splits)
  from ch rc0 have ch': "check_hosts E this_node standby_list False False w1 = (r2, w2, t2)" by simp
  from check_hosts_self_inactive [OF ch'] t2
  have r2: "r2 = Inr (False, False)" and pings: "list_all is_ping t2" by simp_all
  have "list_all is_ping (Exec (PING_CMD ''localhost'') rc0 # t2)" using pings by simp
  moreover have "if priority_wait \<or> priority = 0
            then r = Inr False \<and>
                 (\<exists>rc. tr = Sleep d # (Exec (PING_CMD ''localhost'') rc0 # t2)
                          @ [Log ''no running tegu found, starting here'', Exec (ACTIVATE_CMD []) rc])
            else r = Inr True \<and> tr = Sleep d # (Exec (PING_CMD ''localhost'') rc0 # t2)"
    using assms(1) sh ch r2 ac by (auto simp: cycle_eq d_def [symmetric])
  ultimately show ?thesis unfolding d_def by blast
qed

lemma one_active_turn:
  assumes "cycle E standby_list this_node priority priority_wait w = (r, w', tr)"
      and "active_count tr = 1"
  shows "r = Inr priority_wait
       \<and> (\<exists>pings. list_all is_ping pings \<and>
            tr = Sleep (if \<not> priority_wait then HEARTBEAT_SEC else PRI_WAIT_SEC * priority) # pings)"
proof -
  define d where "d = (if \<not> priority_wait then HEARTBEAT_SEC else PRI_WAIT_SEC * priority)"
  obtain rc0 out0 w1 where sh: "shell E (PING_CMD ''localhost'') (elapse E d w) = ((rc0, out0), w1)"
    by (metis surj_pair)
  obtain r2 w2 t2 where ch: "check_hosts E this_node standby_list (rc0 = 0) (rc0 = 0) w1 = (r2, w2, t2)"
    by (metis surj_pair)
  have tr: "\<exists>t3. tr = Sleep d # Exec (PING_CMD ''localhost'') rc0 # t2 @ t3
              \<and> active_count t3 = 0"
    using assms(1) sh ch
    by (auto simp: cycle_eq d_def [symmetric] active_count_def split: sum.splits if_splits prod.splits)
  have "r2 = Inr (rc0 = 0, True) \<and> list_all is_ping t2"
  proof (cases "rc0 = 0")
    case True
    with tr assms(2) have "active_count t2 = 0" by (auto simp: active_count_def)
    with ch True check_hosts_no_peer_active [of E this_node standby_list True w1 r2 w2 t2]
    show ?thesis by simp
  next
    case False
    with tr assms(2) have "active_count t2 = 1" by (auto simp: active_count_def)
    with ch False check_hosts_self_inactive [of E this_node standby_list False w1 r2 w2 t2]
    show ?thesis by simp
  qed
  with assms(1) sh ch show ?thesis
    by (auto simp: cycle_eq d_def [symmetric])
qed

text \<open>The definitions that evaluate a turn of the loop in an example environment.\<close>

lemmas eval_defs =
  cycle_def sleep_def is_active_eq activate_tegu_eq deactivate_tegu_eq HEARTBEAT_SEC_def
  PRI_WAIT_SEC_def should_be_active_def split_sep_def pbind_def pret_def praise_def
  try_except_def get_checkpoint_def check_call_def check_output_def warn_def logit_def
  int_of_str_def example_env_def outcome_def split_brain_script_def date_line_def ls_line_def
  tar_line_def ssh_cmd_def TEGU_USER_def late_peer_script_def old_tar_line_def new_ls_line_def
  extract_dt_def split_ws_def py_nth_def is_space_def final_comparison_def

text \<open>
  C3. A turn of the loop in which no probe succeeds. When the loop is waiting already
  (\<^verbatim>\<open>priority_wait\<close>) or the priority is 0, the turn ends with the activation of the local
  tegu, nothing but the probes lies between its sleep and the activation, and the loop is
  not waiting afterwards, so that the next turn starts with the heartbeat sleep. Otherwise
  the turn activates nothing and the loop is waiting afterwards: the next turn starts with
  a sleep of \<open>PRI_WAIT_SEC * priority\<close> seconds, and it activates the local tegu exactly
  when none of its own probes succeeds.
\<close>

theorem cycle_none_active:
  assumes "cycle E standby_list this_node priority priority_wait w = (r, w', tr)"
      and "active_count tr = 0"
      and "cycle E standby_list this_node priority True w' = (r_next, w_next, tr_next)"
  shows "(priority_wait \<or> priority = 0 \<longrightarrow>
            r = Inr False
            \<and> (\<exists>pings rc. list_all is_ping pings
                 \<and> tr = Sleep (if \<not> priority_wait then HEARTBEAT_SEC else PRI_WAIT_SEC * priority)
                          # pings @ [Log ''no running tegu found, starting here'',
                                     Exec (ACTIVATE_CMD []) rc])
            \<and> (\<exists>rest. snd (snd (cycle E standby_list this_node priority False w')) =
                 Sleep HEARTBEAT_SEC # rest))
       \<and> (\<not> (priority_wait \<or> priority = 0) \<longrightarrow>
            r = Inr True
            \<and> (\<exists>pings. list_all is_ping pings \<and> tr = Sleep HEARTBEAT_SEC # pings)
            \<and> (\<exists>rest. tr_next = Sleep (PRI_WAIT_SEC * priority) # rest)
            \<and> ((\<exists>rc. Exec (ACTIVATE_CMD []) rc \<in> set tr_next) \<longleftrightarrow> active_count tr_next = 0))"
proof (intro conjI impI)
  assume now: "priority_wait \<or> priority = 0"
  from none_active_turn [OF assms(1,2)] now
  show "r = Inr False"
    and "\<exists>pings rc. list_all is_ping pings
           \<and> tr = Sleep (if \<not> priority_wait then HEARTBEAT_SEC else PRI_WAIT_SEC * priority)
                    # pings @ [Log ''no running tegu found, starting here'',
                               Exec (ACTIVATE_CMD []) rc]"
    by auto
  from cycle_starts_with_sleep [of E standby_list this_node priority False w']
  show "\<exists>rest. snd (snd (cycle E standby_list this_node priority False w')) =
          Sleep HEARTBEAT_SEC # rest"
    by simp
next
  assume wait: "\<not> (priority_wait \<or> priority = 0)"
  from none_active_turn [OF assms(1,2)] wait
  show "r = Inr True" and "\<exists>pings. list_all is_ping pings \<and> tr = Sleep HEARTBEAT_SEC # pings"
    by auto
  from cycle_starts_with_sleep [of E standby_list this_node priority True w'] assms(3)
  show "\<exists>rest. tr_next = Sleep (PRI_WAIT_SEC * priority) # rest"
    by simp
  show "(\<exists>rc. Exec (ACTIVATE_CMD []) rc \<in> set tr_next) \<longleftrightarrow> active_count tr_next = 0"
  proof
    assume "\<exists>rc. Exec (ACTIVATE_CMD []) rc \<in> set tr_next"
    then have "\<not> list_all (\<lambda>e. \<not> is_activate e) tr_next"
      by (force simp: list_all_iff)
    with assms(3) show "active_count tr_next = 0"
      by (rule cycle_activates_only_if_none_active)
  next
    assume "active_count tr_next = 0"
    from none_active_turn [OF assms(3) this]
    show "\<exists>rc. Exec (ACTIVATE_CMD []) rc \<in> set tr_next" by auto
  qed
qed

theorem cycle_none_active_witness:
  "cycle (example_env (\<lambda>_. [(ACTIVATE_CMD [], 0, [])]) ''b.example.org'')
       [''a.example.org'', ''c.example.org''] ''b.example.org'' 0 False 0 =
     (Inr False, 1,
      [Sleep 5, Exec (PING_CMD ''localhost'') 1, Exec (PING_CMD ''a.example.org'') 1,
       Exec (PING_CMD ''c.example.org'') 1,
       Log ''no running tegu found, starting here'', Exec (ACTIVATE_CMD []) 0])
   \<and> cycle (example_env (\<lambda>_. [(ACTIVATE_CMD [], 0, [])]) ''c.example.org'')
       [''a.example.org'', ''b.example.org''] ''c.example.org'' 2 False 0 =
     (Inr True, 1,
      [Sleep 5, Exec (PING_CMD ''localhost'') 1, Exec (PING_CMD ''a.example.org'') 1,
       Exec (PING_CMD ''b.example.org'') 1])
   \<and> cycle (example_env (\<lambda>_. [(ACTIVATE_CMD [], 0, [])]) ''c.example.org'')
       [''a.example.org'', ''b.example.org''] ''c.example.org'' 2 True 1 =
     (Inr False, 2,
      [Sleep 10, Exec (PING_CMD ''localhost'') 1, Exec (PING_CMD ''a.example.org'') 1,
       Exec (PING_CMD ''b.example.org'') 1,
       Log ''no running tegu found, starting here'', Exec (ACTIVATE_CMD []) 0])
   \<and> (\<exists>rest. snd (snd (cycle (example_env (\<lambda>_. [(ACTIVATE_CMD [], 0, [])]) ''b.example.org'')
         [''a.example.org'', ''c.example.org''] ''b.example.org'' 0 False 1)) =
         Sleep HEARTBEAT_SEC # rest)
   \<and> ((\<exists>rc. Exec (ACTIVATE_CMD []) rc \<in> set
         [Sleep 10, Exec (PING_CMD ''localhost'') 1, Exec (PING_CMD ''a.example.org'') 1,
          Exec (PING_CMD ''b.example.org'') 1,
          Log ''no running tegu found, starting here'', Exec (ACTIVATE_CMD []) 0])
        \<longleftrightarrow> active_count
         [Sleep 10, Exec (PING_CMD ''localhost'') 1, Exec (PING_CMD ''a.example.org'') 1,
          Exec (PING_CMD ''b.example.org'') 1,
          Log ''no running tegu found, starting here'', Exec (ACTIVATE_CMD []) 0] = 0)"
proof -
  let ?Eb = "example_env (\<lambda>_. [(ACTIVATE_CMD [], 0, [])]) ''b.example.org''"
  let ?Ec = "example_env (\<lambda>_. [(ACTIVATE_CMD [], 0, [])]) ''c.example.org''"
  let ?tb = "[Sleep 5, Exec (PING_CMD ''localhost'') 1, Exec (PING_CMD ''a.example.org'') 1,
       Exec (PING_CMD ''c.example.org'') 1,
       Log ''no running tegu found, starting here'', Exec (ACTIVATE_CMD []) 0]"
  let ?tb' = "[Sleep 0, Exec (PING_CMD ''localhost'') 1, Exec (PING_CMD ''a.example.org'') 1,
       Exec (PING_CMD ''c.example.org'') 1,
       Log ''no running tegu found, starting here'', Exec (ACTIVATE_CMD []) 0]"
  let ?tc = "[Sleep 5, Exec (PING_CMD ''localhost'') 1, Exec (PING_CMD ''a.example.org'') 1,
       Exec (PING_CMD ''b.example.org'') 1]"
  let ?tc' = "[Sleep 10, Exec (PING_CMD ''localhost'') 1, Exec (PING_CMD ''a.example.org'') 1,
       Exec (PING_CMD ''b.example.org'') 1,
       Log ''no running tegu found, starting here'', Exec (ACTIVATE_CMD []) 0]"
  have b1: "cycle ?Eb [''a.example.org'', ''c.example.org''] ''b.example.org'' 0 False 0 =
      (Inr False, 1, ?tb)"
    by (simp add: eval_defs)
  have b2: "active_count ?tb = 0" by (simp add: active_count_def)
  have b3: "cycle ?Eb [''a.example.org'', ''c.example.org''] ''b.example.org'' 0 True 1 =
      (Inr False, 2, ?tb')"
    by (simp add: eval_defs)
  have c1: "cycle ?Ec [''a.example.org'', ''b.example.org''] ''c.example.org'' 2 False 0 =
      (Inr True, 1, ?tc)"
    by (simp add: eval_defs)
  have c2: "active_count ?tc = 0" by (simp add: active_count_def)
  have c3: "cycle ?Ec [''a.example.org'', ''b.example.org''] ''c.example.org'' 2 True 1 =
      (Inr False, 2, ?tc')"
    by (simp add: eval_defs)
  from cycle_none_active [OF b1 b2 b3] cycle_none_active [OF c1 c2 c3] b1 c1 c3
  show ?thesis by simp
qed

text \<open>
  C4. A turn of the loop in which exactly one probe succeeds should leave the loop idle,
  with one heartbeat interval to the next poll. Three nodes, the script runs on the one of
  priority 2. In the first turn nobody answers, and the loop starts waiting. In the second
  turn exactly one node answers, \<open>a.example.org\<close>: nothing is resolved, activated or
  deactivated, but \<^verbatim>\<open>priority_wait\<close> stays set, and the third turn sleeps
  \<open>PRI_WAIT_SEC * 2 = 10\<close> seconds, not \<open>HEARTBEAT_SEC = 5\<close>, before it polls.
\<close>

theorem cycle_one_active_keeps_waiting:
  "cycle (example_env late_peer_script ''c.example.org'')
       [''a.example.org'', ''b.example.org''] ''c.example.org'' 2 False 0 =
     (Inr True, 1,
      [Sleep 5, Exec (PING_CMD ''localhost'') 1, Exec (PING_CMD ''a.example.org'') 1,
       Exec (PING_CMD ''b.example.org'') 1])
   \<and> cycle (example_env late_peer_script ''c.example.org'')
       [''a.example.org'', ''b.example.org''] ''c.example.org'' 2 True 1 =
     (Inr True, 2,
      [Sleep 10, Exec (PING_CMD ''localhost'') 1, Exec (PING_CMD ''a.example.org'') 0,
       Exec (PING_CMD ''b.example.org'') 1])
   \<and> active_count
      [Sleep 10, Exec (PING_CMD ''localhost'') 1, Exec (PING_CMD ''a.example.org'') 0,
       Exec (PING_CMD ''b.example.org'') 1] = 1
   \<and> cycle (example_env late_peer_script ''c.example.org'')
       [''a.example.org'', ''b.example.org''] ''c.example.org'' 2 True 2 =
     (Inr True, 3,
      [Sleep 10, Exec (PING_CMD ''localhost'') 1, Exec (PING_CMD ''a.example.org'') 0,
       Exec (PING_CMD ''b.example.org'') 1])
   \<and> HEARTBEAT_SEC = 5"
  by (simp add: eval_defs active_count_def)

section \<open>Split brain\<close>

lemma pbind_eq:
  "m w = (Inr a, w1, t1) \<Longrightarrow> f a w1 = (r, w2, t2) \<Longrightarrow> pbind m f w = (r, w2, t1 @ t2)"
  by (simp add: pbind_def)

text \<open>
  C10. Both the local tegu and a peer answer the probe, and \<^verbatim>\<open>should_be_active\<close> decides.
  The rest of the \<^verbatim>\<open>for\<close> loop runs with \<^verbatim>\<open>i_am_active\<close> and \<^verbatim>\<open>any_active\<close> set from
  the decision alone, whatever the deactivation returns: after the decision for the peer
  the local node counts as inactive, and the rest of the loop only probes; after the
  decision for the local node the peer does not count for \<^verbatim>\<open>any_active\<close>.
\<close>

theorem split_brain_tracking:
  assumes "host \<noteq> this_node"
      and "is_active E host w = (Inr True, w1, t1)"
      and "should_be_active E host w1 = (Inr decision, w2, t2)"
      and "deactivate_tegu E (if decision then [] else host) w2 = (Inr ok, w3, t3)"
      and "check_hosts E this_node hosts (\<not> decision) (any_active \<or> decision) w3 = (r, w4, t4)"
  shows "check_hosts E this_node (host # hosts) True any_active w =
           (r, w4,
            t1 @ Log ''checking for split'' # t2
            @ Log (if decision then ''deactivate myself, '' @ host @ '' already running''
                   else ''deactivate '' @ host @ '' already running here'') # t3 @ t4)
       \<and> (decision \<longrightarrow> list_all is_ping t4 \<and> r = Inr (False, True))"
proof
  show "check_hosts E this_node (host # hosts) True any_active w =
           (r, w4,
            t1 @ Log ''checking for split'' # t2
            @ Log (if decision then ''deactivate myself, '' @ host @ '' already running''
                   else ''deactivate '' @ host @ '' already running here'') # t3 @ t4)"
  proof (cases decision)
    case True
    with assms show ?thesis
      by (simp add: pbind_def logit_def)
  next
    case False
    with assms show ?thesis
      by (simp add: pbind_def logit_def)
  qed
  show "decision \<longrightarrow> list_all is_ping t4 \<and> r = Inr (False, True)"
  proof
    assume decision
    with assms(5) have "check_hosts E this_node hosts False True w3 = (r, w4, t4)" by simp
    from check_hosts_self_inactive [OF this]
    show "list_all is_ping t4 \<and> r = Inr (False, True)" by simp
  qed
qed

theorem split_brain_tracking_witness:
  "check_hosts (example_env (\<lambda>_. split_brain_script date_line tar_line ls_line) ''b.example.org'')
       ''b.example.org'' [''a.example.org'', ''c.example.org''] True True 0 =
     (Inr (False, True), 0,
      [Exec (PING_CMD ''a.example.org'') 0, Log ''checking for split'',
       Exec (SYNC_CMD ''a.example.org'') 0, Exec (SYNC_CMD []) 0,
       Log ''checking clock skew: ssh -o StrictHostKeyChecking=no tegu@a.example.org date +%s'',
       Exec (DATE_CMD ''a.example.org'') 0, Exec (DATE_CMD []) 0,
       Exec (TS_R_CMD ''a'') 0, Exec TS_L_CMD 0,
       Log ''deactivate myself, a.example.org already running'',
       Exec (DEACTIVATE_CMD []) 1,
       Exec (PING_CMD ''c.example.org'') 1])
   \<and> check_hosts (example_env (\<lambda>_. split_brain_script date_line old_tar_line new_ls_line)
         ''b.example.org'')
       ''b.example.org'' [''a.example.org'', ''c.example.org''] True True 0 =
     (Inr (True, True), 0,
      [Exec (PING_CMD ''a.example.org'') 0, Log ''checking for split'',
       Exec (SYNC_CMD ''a.example.org'') 0, Exec (SYNC_CMD []) 0,
       Log ''checking clock skew: ssh -o StrictHostKeyChecking=no tegu@a.example.org date +%s'',
       Exec (DATE_CMD ''a.example.org'') 0, Exec (DATE_CMD []) 0,
       Exec (TS_R_CMD ''a'') 0, Exec TS_L_CMD 0,
       Log ''deactivate a.example.org already running here'',
       Exec (DEACTIVATE_CMD ''a.example.org'') 1,
       Exec (PING_CMD ''c.example.org'') 1])"
proof -
  let ?E1 = "example_env (\<lambda>_. split_brain_script date_line tar_line ls_line) ''b.example.org''"
  let ?E2 = "example_env (\<lambda>_. split_brain_script date_line old_tar_line new_ls_line)
         ''b.example.org''"
  let ?res = "[Exec (SYNC_CMD ''a.example.org'') 0, Exec (SYNC_CMD []) 0,
       Log ''checking clock skew: ssh -o StrictHostKeyChecking=no tegu@a.example.org date +%s'',
       Exec (DATE_CMD ''a.example.org'') 0, Exec (DATE_CMD []) 0,
       Exec (TS_R_CMD ''a'') 0, Exec TS_L_CMD 0]"
  have ne: "''a.example.org'' \<noteq> ''b.example.org''" by simp
  have p1: "is_active ?E1 ''a.example.org'' 0 = (Inr True, 0, [Exec (PING_CMD ''a.example.org'') 0])"
    by (simp add: eval_defs)
  have s1: "should_be_active ?E1 ''a.example.org'' 0 = (Inr True, 0, ?res)"
    by (simp add: eval_defs)
  have d1: "deactivate_tegu ?E1 (if True then [] else ''a.example.org'') 0 =
      (Inr False, 0, [Exec (DEACTIVATE_CMD []) 1])"
    by (simp add: eval_defs)
  have c1: "check_hosts ?E1 ''b.example.org'' [''c.example.org''] (\<not> True) (True \<or> True) 0 =
      (Inr (False, True), 0, [Exec (PING_CMD ''c.example.org'') 1])"
    by (simp add: eval_defs)
  have p2: "is_active ?E2 ''a.example.org'' 0 = (Inr True, 0, [Exec (PING_CMD ''a.example.org'') 0])"
    by (simp add: eval_defs)
  have s2: "should_be_active ?E2 ''a.example.org'' 0 = (Inr False, 0, ?res)"
    by (simp add: eval_defs)
  have d2: "deactivate_tegu ?E2 (if False then [] else ''a.example.org'') 0 =
      (Inr False, 0, [Exec (DEACTIVATE_CMD ''a.example.org'') 1])"
    by (simp add: eval_defs)
  have c2: "check_hosts ?E2 ''b.example.org'' [''c.example.org''] (\<not> False) (True \<or> False) 0 =
      (Inr (True, True), 0, [Exec (PING_CMD ''c.example.org'') 1])"
    by (simp add: eval_defs)
  from split_brain_tracking [OF ne p1 s1 d1 c1] split_brain_tracking [OF ne p2 s2 d2 c2]
  show ?thesis by simp
qed

section \<open>The final comparison of the resolver\<close>

text \<open>
  C1. When \<^verbatim>\<open>should_be_active\<close> reaches its final comparison (both pulls, both clock
  readings and both listings succeed, and the time stamps \<open>ts_r\<close> and \<open>ts_l\<close> are
  extracted), it returns True, the remote node should be active, exactly when
  \<open>ts_r + skew > ts_l\<close>, or \<open>ts_r + skew = ts_l\<close> and the remote host name is
  lexicographically smaller than the local one, where \<open>skew\<close> is the local clock reading
  minus the remote one; in particular it returns True, whatever the host names, whenever
  \<open>ts_r + skew > ts_l\<close>.
\<close>

theorem should_be_active_final_comparison:
  assumes "shell E (SYNC_CMD remoteHost) w = ((0, o1), w1)"
      and "shell E (SYNC_CMD []) w1 = ((0, o2), w2)"
      and "shell E (DATE_CMD remoteHost) w2 = ((0, out_r), w3)"
      and "py_int E out_r = Some time_r"
      and "shell E (DATE_CMD []) w3 = ((0, out_l), w4)"
      and "py_int E out_l = Some time_l"
      and "shell E (TS_R_CMD (hd (split_sep (CHR ''.'') remoteHost))) w4 = ((0, ts_r_s), w5)"
      and "shell E TS_L_CMD w5 = ((0, ts_l_s), w6)"
      and "ts_r_s \<noteq> []" and "ts_l_s \<noteq> []"
      and "extract_dt E ts_r_s 3 4 w6 = (Inr ts_r, w6, t_r)"
      and "extract_dt E ts_l_s 5 6 w6 = (Inr ts_l, w6, t_l)"
      and "skew = time_l - time_r"
      and "localHost = getfqdn E"
  shows "(fst (should_be_active E remoteHost w) = Inr True
            \<longleftrightarrow> ts_r + skew > ts_l \<or> (ts_r + skew = ts_l \<and> remoteHost < localHost))
       \<and> (fst (should_be_active E remoteHost w) = Inr False
            \<longleftrightarrow> \<not> (ts_r + skew > ts_l \<or> (ts_r + skew = ts_l \<and> remoteHost < localHost)))
       \<and> (ts_r + skew > ts_l \<longrightarrow> fst (should_be_active E remoteHost w) = Inr True)"
proof -
  have "fst (should_be_active E remoteHost w) =
          Inr (final_comparison ts_r ts_l (time_l - time_r) remoteHost (getfqdn E))"
    using assms(1-12) by (rule should_be_active_compares)
  with assms(13,14) show ?thesis
    by (auto simp: final_comparison_def)
qed

theorem should_be_active_final_comparison_witness:
  "fst (should_be_active
          (example_env (\<lambda>_. split_brain_script date_line tar_line ls_line) ''b.example.org'')
          ''a.example.org'' 0) = Inr True
   \<and> (1422612000::int) + (1422612000 - 1422612060) > 1422608400
   \<and> fst (should_be_active
          (example_env (\<lambda>_. split_brain_script (''1422612000'' @ [CHR 0x0A]) tar_line new_ls_line)
             ''b.example.org'')
          ''a.example.org'' 0) = Inr True
   \<and> (1422612000::int) + (1422612000 - 1422612000) = 1422612000
   \<and> ''a.example.org'' < ''b.example.org''
   \<and> fst (should_be_active
          (example_env (\<lambda>_. split_brain_script (''1422612000'' @ [CHR 0x0A]) tar_line new_ls_line)
             ''a.example.net'')
          ''a.example.org'' 0) = Inr False
   \<and> \<not> ''a.example.org'' < ''a.example.net''"
proof -
  let ?E1 = "example_env (\<lambda>_. split_brain_script date_line tar_line ls_line) ''b.example.org''"
  let ?E2 = "example_env (\<lambda>_. split_brain_script (''1422612000'' @ [CHR 0x0A]) tar_line new_ls_line)
             ''b.example.org''"
  let ?E3 = "example_env (\<lambda>_. split_brain_script (''1422612000'' @ [CHR 0x0A]) tar_line new_ls_line)
             ''a.example.net''"
  have short: "hd (split_sep (CHR ''.'') ''a.example.org'') = ''a''"
    by (simp add: split_sep_def)
  have a1: "shell ?E1 (SYNC_CMD ''a.example.org'') 0 = ((0, []), 0)"
    and a2: "shell ?E1 (SYNC_CMD []) 0 = ((0, []), 0)"
    and a3: "shell ?E1 (DATE_CMD ''a.example.org'') 0 = ((0, date_line), 0)"
    and a4: "py_int ?E1 date_line = Some 1422612060"
    and a5: "shell ?E1 (DATE_CMD []) 0 = ((0, ''1422612000'' @ [CHR 0x0A]), 0)"
    and a6: "py_int ?E1 (''1422612000'' @ [CHR 0x0A]) = Some 1422612000"
    and a7: "shell ?E1 (TS_R_CMD (hd (split_sep (CHR ''.'') ''a.example.org''))) 0 = ((0, tar_line), 0)"
    and a8: "shell ?E1 TS_L_CMD 0 = ((0, ls_line), 0)"
    and a9: "tar_line \<noteq> []" and a10: "ls_line \<noteq> []"
    and a11: "extract_dt ?E1 tar_line 3 4 0 = (Inr 1422612000, 0, [])"
    and a12: "extract_dt ?E1 ls_line 5 6 0 = (Inr 1422608400, 0, [])"
    and a14: "''b.example.org'' = getfqdn ?E1"
    by (simp_all add: short eval_defs)
  have a13: "(1422612000 - 1422612060 :: int) = 1422612000 - 1422612060" by simp
  have b1: "shell ?E2 (SYNC_CMD ''a.example.org'') 0 = ((0, []), 0)"
    and b2: "shell ?E2 (SYNC_CMD []) 0 = ((0, []), 0)"
    and b3: "shell ?E2 (DATE_CMD ''a.example.org'') 0 = ((0, ''1422612000'' @ [CHR 0x0A]), 0)"
    and b4: "py_int ?E2 (''1422612000'' @ [CHR 0x0A]) = Some 1422612000"
    and b5: "shell ?E2 (DATE_CMD []) 0 = ((0, ''1422612000'' @ [CHR 0x0A]), 0)"
    and b7: "shell ?E2 (TS_R_CMD (hd (split_sep (CHR ''.'') ''a.example.org''))) 0 = ((0, tar_line), 0)"
    and b8: "shell ?E2 TS_L_CMD 0 = ((0, new_ls_line), 0)"
    and b10: "new_ls_line \<noteq> []"
    and b11: "extract_dt ?E2 tar_line 3 4 0 = (Inr 1422612000, 0, [])"
    and b12: "extract_dt ?E2 new_ls_line 5 6 0 = (Inr 1422612000, 0, [])"
    and b14: "''b.example.org'' = getfqdn ?E2"
    by (simp_all add: short eval_defs)
  have b13: "(1422612000 - 1422612000 :: int) = 1422612000 - 1422612000" by simp
  have c1: "shell ?E3 (SYNC_CMD ''a.example.org'') 0 = ((0, []), 0)"
    and c2: "shell ?E3 (SYNC_CMD []) 0 = ((0, []), 0)"
    and c3: "shell ?E3 (DATE_CMD ''a.example.org'') 0 = ((0, ''1422612000'' @ [CHR 0x0A]), 0)"
    and c4: "py_int ?E3 (''1422612000'' @ [CHR 0x0A]) = Some 1422612000"
    and c5: "shell ?E3 (DATE_CMD []) 0 = ((0, ''1422612000'' @ [CHR 0x0A]), 0)"
    and c7: "shell ?E3 (TS_R_CMD (hd (split_sep (CHR ''.'') ''a.example.org''))) 0 = ((0, tar_line), 0)"
    and c8: "shell ?E3 TS_L_CMD 0 = ((0, new_ls_line), 0)"
    and c11: "extract_dt ?E3 tar_line 3 4 0 = (Inr 1422612000, 0, [])"
    and c12: "extract_dt ?E3 new_ls_line 5 6 0 = (Inr 1422612000, 0, [])"
    and c14: "''a.example.net'' = getfqdn ?E3"
    by (simp_all add: short eval_defs)
  from should_be_active_final_comparison [OF a1 a2 a3 a4 a5 a6 a7 a8 a9 a10 a11 a12 a13 a14]
    should_be_active_final_comparison [OF b1 b2 b3 b4 b5 b4 b7 b8 a9 b10 b11 b12 b13 b14]
    should_be_active_final_comparison [OF c1 c2 c3 c4 c5 c4 c7 c8 a9 b10 c11 c12 b13 c14]
  show ?thesis by simp
qed

end
